theory Spec2Isabelle
  imports Complex_Main "HOL-Library.Sublist"
begin

section \<open>Span extraction and filtering of \<open>pdf_loader.py\<close>\<close>

text \<open>
  A shallow embedding of \<open>src/pdf_loader.py\<close>: the \<open>SpanInfo\<close> value object with its
  validating constructor, the font and colour helpers, the page walk, the document loop
  and the span filter.

  Conventions of the model.
  \<^item> A Python \<open>str\<close> is a \<^typ>\<open>string\<close>; a \<^typ>\<open>char\<close> stands for the code point of
    the same number, so the texts of the model are those over the code points 0..255.
    The predicates \<open>isspace\<close>, \<open>isalnum\<close> and the mapping \<open>lower\<close> below are
    Python's on that range.
  \<^item> A Python \<open>int\<close> is an \<^typ>\<open>int\<close>; \<open>&\<close> on it is the bitwise \<open>AND\<close> of
    \<^typ>\<open>int\<close> (two's complement of unbounded width on both sides).
  \<^item> A Python \<open>float\<close> is a \<open>pyfloat\<close>: a finite value, which is a rational number, one
    of the two infinities, or \<open>nan\<close>. The comparisons \<open><=\<close> and \<open><\<close> are \<open>float_le\<close> and
    \<open>float_lt\<close>; \<open>a > b\<close> is \<open>float_lt b a\<close>. Every comparison with \<open>nan\<close> is false.
  \<^item> An exception is a value of \<open>exn\<close>; a function that may raise returns
    \<open>exn + 'a\<close>, with \<open>Inl\<close> for the raise.
  \<^item> The logger is a list of log records that the functions return extended.
\<close>

subsection \<open>Characters and strings\<close>

definition code_point :: "char \<Rightarrow> nat" where
  "code_point c = of_char c"

text \<open>\<open>str.isspace\<close> on one character.\<close>

definition isspace_char :: "char \<Rightarrow> bool" where
  "isspace_char c =
     (let n = code_point c
      in (9 \<le> n \<and> n \<le> 13) \<or> (28 \<le> n \<and> n \<le> 32) \<or> n = 133 \<or> n = 160)"

text \<open>\<open>str.isalnum\<close> on one character.\<close>

definition isalnum_char :: "char \<Rightarrow> bool" where
  "isalnum_char c =
     (let n = code_point c
      in (48 \<le> n \<and> n \<le> 57) \<or> (65 \<le> n \<and> n \<le> 90) \<or> (97 \<le> n \<and> n \<le> 122)
         \<or> n = 170 \<or> n = 178 \<or> n = 179 \<or> n = 181 \<or> n = 185 \<or> n = 186
         \<or> (188 \<le> n \<and> n \<le> 190) \<or> (192 \<le> n \<and> n \<le> 214)
         \<or> (216 \<le> n \<and> n \<le> 246) \<or> (248 \<le> n \<and> n \<le> 255))"

text \<open>\<open>str.lower\<close> on one character.\<close>

definition lower_char :: "char \<Rightarrow> char" where
  "lower_char c =
     (let n = code_point c
      in if (65 \<le> n \<and> n \<le> 90) \<or> (192 \<le> n \<and> n \<le> 214) \<or> (216 \<le> n \<and> n \<le> 222)
         then char_of (n + 32) else c)"

definition lower :: "string \<Rightarrow> string" where
  "lower s = map lower_char s"

text \<open>\<open>str.strip()\<close>: whitespace is dropped at both ends.\<close>

definition strip :: "string \<Rightarrow> string" where
  "strip s = rev (dropWhile isspace_char (rev (dropWhile isspace_char s)))"

text \<open>\<open>str.isspace()\<close>: at least one character, and all of them whitespace.\<close>

definition isspace :: "string \<Rightarrow> bool" where
  "isspace s = (s \<noteq> [] \<and> list_all isspace_char s)"

text \<open>\<open>sub in s\<close> on strings: \<open>sub\<close> occurs in \<open>s\<close> as a contiguous run.\<close>

fun str_in :: "string \<Rightarrow> string \<Rightarrow> bool" where
  "str_in sub [] = (sub = [])"
| "str_in sub (c # cs) = (prefix sub (c # cs) \<or> str_in sub cs)"

subsection \<open>Exceptions and the log\<close>

text \<open>
  \<open>FileNotFoundError\<close> is the builtin class. \<open>Fitz_FileNotFoundError\<close> and
  \<open>Fitz_FileDataError\<close> are the classes of these names of the document library; they are
  subclasses of \<open>RuntimeError\<close>, not of the builtin \<open>FileNotFoundError\<close>.
\<close>

datatype exn =
    ValueError string
  | KeyError string
  | FileNotFoundError string
  | RuntimeError string exn
  | Fitz_FileNotFoundError string
  | Fitz_FileDataError string
  | OtherError string

text \<open>
  Only the warnings of the logger are kept: \<open>Warning n e\<close> is the record of
  \<open>logger.warning\<close> for page \<open>n\<close> and the exception \<open>e\<close>. The \<open>info\<close> and \<open>debug\<close> lines
  have no effect on any result.
\<close>

datatype log_record = Warning int exn

subsection \<open>Floats\<close>

datatype pyfloat = Float rat | PosInf | NegInf | NaN

definition float_le :: "pyfloat \<Rightarrow> pyfloat \<Rightarrow> bool" where
  "float_le a b =
     (case a of
        NaN \<Rightarrow> False
      | PosInf \<Rightarrow> (case b of PosInf \<Rightarrow> True | _ \<Rightarrow> False)
      | NegInf \<Rightarrow> (case b of NaN \<Rightarrow> False | _ \<Rightarrow> True)
      | Float x \<Rightarrow> (case b of Float y \<Rightarrow> x \<le> y | PosInf \<Rightarrow> True | _ \<Rightarrow> False))"

definition float_lt :: "pyfloat \<Rightarrow> pyfloat \<Rightarrow> bool" where
  "float_lt a b =
     (case a of
        NaN \<Rightarrow> False
      | PosInf \<Rightarrow> False
      | NegInf \<Rightarrow> (case b of NaN \<Rightarrow> False | NegInf \<Rightarrow> False | _ \<Rightarrow> True)
      | Float x \<Rightarrow> (case b of Float y \<Rightarrow> x < y | PosInf \<Rightarrow> True | _ \<Rightarrow> False))"

subsection \<open>The \<open>06x\<close> format of an integer\<close>

definition hex_digit :: "nat \<Rightarrow> char" where
  "hex_digit d = ''0123456789abcdef'' ! (d mod 16)"

fun hex_of_nat :: "nat \<Rightarrow> string" where
  "hex_of_nat n = (if n < 16 then [hex_digit n] else hex_of_nat (n div 16) @ [hex_digit (n mod 16)])"

declare hex_of_nat.simps [simp del]

definition zero_pad :: "nat \<Rightarrow> string \<Rightarrow> string" where
  "zero_pad w s = replicate (w - length s) (CHR ''0'') @ s"

text \<open>
  \<open>format(c, "06x")\<close>: lowercase hexadecimal digits of the magnitude, a minus sign for a
  negative number, zeros after the sign up to a total width of six. Nothing is cut off.
\<close>

definition format_06x :: "int \<Rightarrow> string" where
  "format_06x c =
     (if c < 0 then CHR ''-'' # zero_pad 5 (hex_of_nat (nat (- c)))
      else zero_pad 6 (hex_of_nat (nat c)))"


subsection \<open>Runs as the document library gives them\<close>

text \<open>
  A run is the \<open>dict\<close> the library returns for one span. A field is \<open>None\<close> when the key
  is absent: \<open>span["text"]\<close>, \<open>span["bbox"]\<close> and \<open>span["size"]\<close> raise \<open>KeyError\<close> then,
  \<open>span.get("font", "")\<close>, \<open>span.get("flags", 0)\<close> and \<open>span.get("color", 0)\<close> give the
  default.
\<close>

record raw_span =
  run_text :: "string option"
  run_bbox :: "pyfloat list option"
  run_size :: "pyfloat option"
  run_font :: "string option"
  run_flags :: "int option"
  run_color :: "int option"

text \<open>
  A line holds its runs under \<open>"spans"\<close>, a block its lines under \<open>"lines"\<close> (an image
  block has no such key), and \<open>page.get_text("dict")["blocks"]\<close> gives the blocks of a
  page or raises.
\<close>

datatype line = Line (line_spans: "raw_span list option")

datatype block = Block (block_lines: "line list option")

datatype page = Page (page_blocks: "exn + block list")

text \<open>
  Iterating over an open document loads one page after the other; a load may raise.
\<close>

datatype document = Document (doc_pages: "(exn + page) list")

subsection \<open>\<open>SpanInfo\<close>\<close>

text \<open>
  The frozen dataclass. An instance exists only when \<open>__post_init__\<close> has returned, so its
  \<open>bbox\<close> has four coordinates: the record holds them as a 4-tuple, and the constructor
  \<open>SpanInfo_init\<close> takes the sequence it is given.
\<close>

record SpanInfo =
  si_text :: string
  si_bbox :: "pyfloat \<times> pyfloat \<times> pyfloat \<times> pyfloat"
  si_size :: pyfloat
  si_page :: int
  si_font :: string
  si_is_bold :: bool
  si_is_italic :: bool
  si_color :: string

definition SpanInfo_init ::
  "string \<Rightarrow> pyfloat list \<Rightarrow> pyfloat \<Rightarrow> int \<Rightarrow> string \<Rightarrow> bool \<Rightarrow> bool \<Rightarrow> string
     \<Rightarrow> exn + SpanInfo" where
  "SpanInfo_init txt bbox sz pg fnt bold italic col =
     (if pg < 1 then Inl (ValueError ''Page number must be positive'')
      else if float_le sz (Float 0) then Inl (ValueError ''Font size must be positive'')
      else if length bbox \<noteq> 4 then Inl (ValueError ''BBox must have 4 coordinates'')
      else Inr \<lparr>si_text = txt, si_bbox = (bbox ! 0, bbox ! 1, bbox ! 2, bbox ! 3),
                si_size = sz, si_page = pg, si_font = fnt, si_is_bold = bold,
                si_is_italic = italic, si_color = col\<rparr>)"

subsection \<open>\<open>PDFTextExtractor\<close>: the helpers\<close>

record PDFTextExtractor =
  min_font_size :: pyfloat
  max_font_size :: pyfloat

text \<open>\<open>PDFTextExtractor()\<close> with the default arguments.\<close>

definition default_extractor :: PDFTextExtractor where
  "default_extractor = \<lparr>min_font_size = Float 6, max_font_size = Float 72\<rparr>"

record font_info =
  font_name :: string
  is_bold :: bool
  is_italic :: bool
  flags :: int

definition parse_font_info :: "raw_span \<Rightarrow> font_info" where
  "parse_font_info sp =
     (let fname = (case run_font sp of None \<Rightarrow> [] | Some f \<Rightarrow> f);
          flgs = (case run_flags sp of None \<Rightarrow> 0 | Some g \<Rightarrow> g)
      in \<lparr>font_name = fname,
          is_bold = (and flgs 16 \<noteq> 0 \<or> str_in ''bold'' (lower fname)),
          is_italic = (and flgs 2 \<noteq> 0 \<or> str_in ''italic'' (lower fname)),
          flags = flgs\<rparr>)"

text \<open>
  The \<open>try\<close> around the format catches \<open>ValueError\<close> and \<open>TypeError\<close>; formatting an
  \<open>int\<close> with \<open>06x\<close> raises neither, so that branch has no case here.
\<close>

definition parse_color :: "raw_span \<Rightarrow> string" where
  "parse_color sp =
     (let color = (case run_color sp of None \<Rightarrow> 0 | Some c \<Rightarrow> c)
      in if color = 0 then ''black'' else CHR ''#'' # format_06x color)"

text \<open>
  \<open>alphanumeric_count / len(text) < 0.3\<close> divides two integers into a float and compares
  it with the float \<open>0.3\<close>. The rounded quotient is below the float \<open>0.3\<close> exactly when the
  exact quotient is below \<open>3/10\<close>, for every text of fewer than \<open>10^15\<close> characters.
\<close>

definition is_mostly_special_chars :: "string \<Rightarrow> bool" where
  "is_mostly_special_chars txt =
     (if length txt < 3 then False
      else let alphanumeric_count = length (filter isalnum_char txt)
           in (of_nat alphanumeric_count / of_nat (length txt) :: rat) < 3 / 10)"

definition is_valid_bbox :: "pyfloat \<times> pyfloat \<times> pyfloat \<times> pyfloat \<Rightarrow> bool" where
  "is_valid_bbox bbox =
     (case bbox of (x1, y1, x2, y2) \<Rightarrow>
        if float_le x2 x1 \<or> float_le y2 y1 then False
        else if list_ex (\<lambda>coord. float_lt coord (Float 0) \<or> float_lt (Float 10000) coord)
                  [x1, y1, x2, y2] then False
        else True)"

subsection \<open>The filter\<close>

text \<open>The loop of \<open>_filter_spans\<close>; each \<open>continue\<close> is a branch that keeps \<open>filtered\<close>.\<close>

fun filter_loop :: "PDFTextExtractor \<Rightarrow> SpanInfo list \<Rightarrow> SpanInfo list \<Rightarrow> SpanInfo list" where
  "filter_loop self [] filtered = filtered"
| "filter_loop self (sp # rest) filtered =
     (if \<not> (float_le (min_font_size self) (si_size sp) \<and> float_le (si_size sp) (max_font_size self))
      then filter_loop self rest filtered
      else if length (si_text sp) < 2 then filter_loop self rest filtered
      else if is_mostly_special_chars (si_text sp) then filter_loop self rest filtered
      else if \<not> is_valid_bbox (si_bbox sp) then filter_loop self rest filtered
      else filter_loop self rest (filtered @ [sp]))"

definition filter_spans :: "PDFTextExtractor \<Rightarrow> SpanInfo list \<Rightarrow> SpanInfo list" where
  "filter_spans self spans = filter_loop self spans []"

subsection \<open>The page walk\<close>

text \<open>
  The body of the innermost loop of \<open>_extract_page_spans\<close> for one run: \<open>Inr None\<close> is the
  \<open>continue\<close> on empty text, \<open>Inr (Some s)\<close> the record that is appended, \<open>Inl e\<close> an
  exception raised in the body. The arguments of \<open>SpanInfo(...)\<close> are evaluated in the
  order written, \<open>span["bbox"]\<close> before \<open>span["size"]\<close>.
\<close>

definition run_body :: "raw_span \<Rightarrow> int \<Rightarrow> exn + SpanInfo option" where
  "run_body sp page_num =
     (case run_text sp of
        None \<Rightarrow> Inl (KeyError ''text'')
      | Some t \<Rightarrow>
          let txt = strip t
          in if txt = [] \<or> isspace txt then Inr None
             else let finfo = parse_font_info sp; color = parse_color sp
                  in case run_bbox sp of
                       None \<Rightarrow> Inl (KeyError ''bbox'')
                     | Some bbox \<Rightarrow>
                         (case run_size sp of
                            None \<Rightarrow> Inl (KeyError ''size'')
                          | Some sz \<Rightarrow>
                              (case SpanInfo_init txt bbox sz page_num (font_name finfo)
                                      (is_bold finfo) (is_italic finfo) color of
                                 Inl e \<Rightarrow> Inl e
                               | Inr s \<Rightarrow> Inr (Some s))))"

text \<open>
  The three nested loops. Each returns the list \<open>spans\<close> as it stands when the loop ends,
  and the exception that ended it, if one did: the single \<open>try\<close> of the method encloses
  all three loops, so an exception raised anywhere in them leaves them all.
\<close>

fun walk_spans :: "raw_span list \<Rightarrow> int \<Rightarrow> SpanInfo list \<Rightarrow> SpanInfo list \<times> exn option" where
  "walk_spans [] page_num spans = (spans, None)"
| "walk_spans (sp # rest) page_num spans =
     (case run_body sp page_num of
        Inl e \<Rightarrow> (spans, Some e)
      | Inr None \<Rightarrow> walk_spans rest page_num spans
      | Inr (Some s) \<Rightarrow> walk_spans rest page_num (spans @ [s]))"

fun walk_lines :: "line list \<Rightarrow> int \<Rightarrow> SpanInfo list \<Rightarrow> SpanInfo list \<times> exn option" where
  "walk_lines [] page_num spans = (spans, None)"
| "walk_lines (l # rest) page_num spans =
     (case line_spans l of
        None \<Rightarrow> (spans, Some (KeyError ''spans''))
      | Some rs \<Rightarrow>
          (case walk_spans rs page_num spans of
             (spans', Some e) \<Rightarrow> (spans', Some e)
           | (spans', None) \<Rightarrow> walk_lines rest page_num spans'))"

fun walk_blocks :: "block list \<Rightarrow> int \<Rightarrow> SpanInfo list \<Rightarrow> SpanInfo list \<times> exn option" where
  "walk_blocks [] page_num spans = (spans, None)"
| "walk_blocks (blk # rest) page_num spans =
     (case block_lines blk of
        None \<Rightarrow> walk_blocks rest page_num spans
      | Some ls \<Rightarrow>
          (case walk_lines ls page_num spans of
             (spans', Some e) \<Rightarrow> (spans', Some e)
           | (spans', None) \<Rightarrow> walk_blocks rest page_num spans'))"

text \<open>
  \<open>_extract_page_spans\<close>: the \<open>except Exception\<close> logs a warning and the method returns
  \<open>spans\<close> as it stands. The method itself never raises.
\<close>

definition extract_page_spans :: "page \<Rightarrow> int \<Rightarrow> log_record list \<Rightarrow> SpanInfo list \<times> log_record list" where
  "extract_page_spans pg page_num lg =
     (case page_blocks pg of
        Inl e \<Rightarrow> ([], lg @ [Warning page_num e])
      | Inr blocks \<Rightarrow>
          (case walk_blocks blocks page_num [] of
             (spans, None) \<Rightarrow> (spans, lg)
           | (spans, Some e) \<Rightarrow> (spans, lg @ [Warning page_num e])))"

subsection \<open>The document loop\<close>

text \<open>
  The loop over \<open>enumerate(doc, 1)\<close>. Loading a page happens in the \<open>for\<close> statement,
  outside the inner \<open>try\<close>, so an exception there leaves the loop. The inner \<open>try\<close> holds
  only the call of \<open>_extract_page_spans\<close>, which never raises: its handler has no case.
\<close>

fun page_loop ::
  "(exn + page) list \<Rightarrow> int \<Rightarrow> SpanInfo list \<Rightarrow> log_record list
     \<Rightarrow> (exn + SpanInfo list) \<times> log_record list" where
  "page_loop [] page_num spans lg = (Inr spans, lg)"
| "page_loop (Inl e # rest) page_num spans lg = (Inl e, lg)"
| "page_loop (Inr pg # rest) page_num spans lg =
     (case extract_page_spans pg page_num lg of
        (page_spans, lg') \<Rightarrow> page_loop rest (page_num + 1) (spans @ page_spans) lg')"

text \<open>The two \<open>except\<close> clauses of \<open>extract_text_spans\<close>, in their order.\<close>

text \<open>
  The message of the \<open>RuntimeError\<close> ends with the text of the cause; the model keeps the
  cause itself as the second argument.
\<close>

definition reraise :: "string \<Rightarrow> exn \<Rightarrow> exn" where
  "reraise pdf_path e =
     (case e of
        FileNotFoundError m \<Rightarrow> FileNotFoundError (''PDF file not found: '' @ pdf_path)
      | _ \<Rightarrow> RuntimeError (''Failed to extract text from '' @ pdf_path) e)"

text \<open>
  \<open>extract_text_spans\<close>. The library call \<open>fitz.open\<close> is the parameter \<open>fitz_open\<close>: for a
  path it raises or gives the open document. \<open>pymupdf_open\<close> below is the call as the
  library behaves.
\<close>

definition extract_text_spans ::
  "(string \<Rightarrow> exn + document) \<Rightarrow> PDFTextExtractor \<Rightarrow> string \<Rightarrow> log_record list
     \<Rightarrow> (exn + SpanInfo list) \<times> log_record list" where
  "extract_text_spans fitz_open self pdf_path lg =
     (case fitz_open pdf_path of
        Inl e \<Rightarrow> (Inl (reraise pdf_path e), lg)
      | Inr doc \<Rightarrow>
          (case page_loop (doc_pages doc) 1 [] lg of
             (Inl e, lg') \<Rightarrow> (Inl (reraise pdf_path e), lg')
           | (Inr spans, lg') \<Rightarrow> (Inr (filter_spans self spans), lg')))"

text \<open>The module-level \<open>extract_text_spans_enhanced\<close>.\<close>

definition extract_text_spans_enhanced ::
  "(string \<Rightarrow> exn + document) \<Rightarrow> string \<Rightarrow> pyfloat \<Rightarrow> pyfloat \<Rightarrow> log_record list
     \<Rightarrow> (exn + SpanInfo list) \<times> log_record list" where
  "extract_text_spans_enhanced fitz_open pdf_path mn mx lg =
     extract_text_spans fitz_open \<lparr>min_font_size = mn, max_font_size = mx\<rparr> pdf_path lg"


subsection \<open>The document library\<close>

text \<open>
  \<open>fitz.open\<close> of the document library, on a file system that tells for a path whether
  a file is missing, is no readable document, or is a document. The library creates a
  new, empty document for the empty path; for a path without a file it raises its own
  \<open>FileNotFoundError\<close>, and for a file that it cannot read its own \<open>FileDataError\<close>.
\<close>

datatype file_state = Missing | Unreadable | Pdf document

definition pymupdf_open :: "(string \<Rightarrow> file_state) \<Rightarrow> string \<Rightarrow> exn + document" where
  "pymupdf_open fs pdf_path =
     (if pdf_path = [] then Inr (Document [])
      else case fs pdf_path of
             Missing \<Rightarrow> Inl (Fitz_FileNotFoundError (''no such file: '' @ pdf_path))
           | Unreadable \<Rightarrow> Inl (Fitz_FileDataError ''Failed to open file'')
           | Pdf doc \<Rightarrow> Inr doc)"

subsection \<open>The filter as the loop decides and as the specification words it\<close>

text \<open>
  \<open>keeps\<close>: one pass of the loop of \<open>_filter_spans\<close> appends the record, that is none of the
  conditions of its four \<open>continue\<close> statements holds.
\<close>

definition keeps :: "PDFTextExtractor \<Rightarrow> SpanInfo \<Rightarrow> bool" where
  "keeps self s =
     (float_le (min_font_size self) (si_size s) \<and> float_le (si_size s) (max_font_size self)
      \<and> \<not> length (si_text s) < 2
      \<and> \<not> is_mostly_special_chars (si_text s)
      \<and> is_valid_bbox (si_bbox s))"

text \<open>
  \<open>passes_tests\<close>: the four tests of the specification on one record, the size within the
  closed interval of the configuration, at least two characters of text as the record
  holds it, not mostly special characters, and a bounding box with positive extent and
  all four coordinates between 0 and 10000.
\<close>

definition passes_tests :: "PDFTextExtractor \<Rightarrow> SpanInfo \<Rightarrow> bool" where
  "passes_tests self s =
     (case si_bbox s of (x1, y1, x2, y2) \<Rightarrow>
        float_le (min_font_size self) (si_size s) \<and> float_le (si_size s) (max_font_size self)
        \<and> 2 \<le> length (si_text s)
        \<and> \<not> is_mostly_special_chars (si_text s)
        \<and> float_lt x1 x2 \<and> float_lt y1 y2
        \<and> float_le (Float 0) x1 \<and> float_le x1 (Float 10000)
        \<and> float_le (Float 0) y1 \<and> float_le y1 (Float 10000)
        \<and> float_le (Float 0) x2 \<and> float_le x2 (Float 10000)
        \<and> float_le (Float 0) y2 \<and> float_le y2 (Float 10000))"

subsection \<open>Example data\<close>

text \<open>The examples take finite sizes and coordinates.\<close>

definition example_span :: "string \<Rightarrow> rat \<Rightarrow> rat \<times> rat \<times> rat \<times> rat \<Rightarrow> SpanInfo" where
  "example_span txt sz bbox =
     (case bbox of (x1, y1, x2, y2) \<Rightarrow>
        \<lparr>si_text = txt, si_bbox = (Float x1, Float y1, Float x2, Float y2), si_size = Float sz,
         si_page = 1, si_font = ''Helvetica'', si_is_bold = False, si_is_italic = False,
         si_color = ''black''\<rparr>)"

text \<open>A run with every key present, bold by its flags and black.\<close>

definition example_run :: "string \<Rightarrow> rat \<Rightarrow> raw_span" where
  "example_run txt sz =
     \<lparr>run_text = Some txt, run_bbox = Some [Float 10, Float 10, Float 100, Float 25],
      run_size = Some (Float sz), run_font = Some ''Helvetica'', run_flags = Some 16,
      run_color = Some 0\<rparr>"

text \<open>The record the page walk builds from \<open>example_run txt sz\<close> on page \<open>n\<close>.\<close>

definition example_record :: "string \<Rightarrow> rat \<Rightarrow> int \<Rightarrow> SpanInfo" where
  "example_record txt sz n =
     \<lparr>si_text = txt, si_bbox = (Float 10, Float 10, Float 100, Float 25), si_size = Float sz,
      si_page = n, si_font = ''Helvetica'', si_is_bold = True, si_is_italic = False,
      si_color = ''black''\<rparr>"

definition example_page :: "raw_span list \<Rightarrow> page" where
  "example_page runs = Page (Inr [Block (Some [Line (Some runs)])])"

text \<open>
  A file system with one document, \<open>doc.pdf\<close> with the given pages, and one file that is
  no readable document, \<open>broken.pdf\<close>; no other path has a file. \<open>example_open\<close> is the
  library call on it.
\<close>

definition example_fs :: "page list \<Rightarrow> string \<Rightarrow> file_state" where
  "example_fs pgs pdf_path =
     (if pdf_path = ''doc.pdf'' then Pdf (Document (map Inr pgs))
      else if pdf_path = ''broken.pdf'' then Unreadable
      else Missing)"

definition example_open :: "page list \<Rightarrow> string \<Rightarrow> exn + document" where
  "example_open pgs = pymupdf_open (example_fs pgs)"

subsection \<open>The page walk as a sequence of steps\<close>

text \<open>
  The walk of a page visits its runs in block, line and run order. \<open>page_items\<close> lists
  what it meets in that order: \<open>Inr r\<close> for a run \<open>r\<close>, \<open>Inl (KeyError ''spans'')\<close> for a
  line without the key \<open>"spans"\<close>; a block without \<open>"lines"\<close> contributes nothing.
  \<open>step_result\<close> is the outcome of one step, \<open>built\<close> the records of the steps that build
  one, and \<open>walk_items\<close> the walk over such a sequence. \<open>page_records\<close> and \<open>page_warnings\<close>
  collect what the pages of a document contribute, the first page having number \<open>n\<close>.
\<close>

fun line_items :: "line \<Rightarrow> (exn + raw_span) list" where
  "line_items (Line None) = [Inl (KeyError ''spans'')]"
| "line_items (Line (Some rs)) = map Inr rs"

fun block_items :: "block \<Rightarrow> (exn + raw_span) list" where
  "block_items (Block None) = []"
| "block_items (Block (Some ls)) = concat (map line_items ls)"

definition page_items :: "block list \<Rightarrow> (exn + raw_span) list" where
  "page_items blocks = concat (map block_items blocks)"

definition step_result :: "int \<Rightarrow> exn + raw_span \<Rightarrow> exn + SpanInfo option" where
  "step_result n it = (case it of Inl e \<Rightarrow> Inl e | Inr r \<Rightarrow> run_body r n)"

definition built :: "int \<Rightarrow> (exn + raw_span) list \<Rightarrow> SpanInfo list" where
  "built n its = concat (map (\<lambda>it. case step_result n it of Inr (Some s) \<Rightarrow> [s] | _ \<Rightarrow> []) its)"

fun walk_items :: "(exn + raw_span) list \<Rightarrow> int \<Rightarrow> SpanInfo list \<Rightarrow> SpanInfo list \<times> exn option" where
  "walk_items [] n spans = (spans, None)"
| "walk_items (it # rest) n spans =
     (case step_result n it of
        Inl e \<Rightarrow> (spans, Some e)
      | Inr None \<Rightarrow> walk_items rest n spans
      | Inr (Some s) \<Rightarrow> walk_items rest n (spans @ [s]))"

fun page_records :: "page list \<Rightarrow> int \<Rightarrow> SpanInfo list" where
  "page_records [] n = []"
| "page_records (p # ps) n = fst (extract_page_spans p n []) @ page_records ps (n + 1)"

fun page_warnings :: "page list \<Rightarrow> int \<Rightarrow> log_record list" where
  "page_warnings [] n = []"
| "page_warnings (p # ps) n = snd (extract_page_spans p n []) @ page_warnings ps (n + 1)"

subsection \<open>Reading a hexadecimal string\<close>

definition hex_digit_value :: "char \<Rightarrow> nat" where
  "hex_digit_value c = (let n = code_point c in if 48 \<le> n \<and> n \<le> 57 then n - 48 else n - 87)"

definition hex_value :: "string \<Rightarrow> nat" where
  "hex_value ds = foldl (\<lambda>v c. 16 * v + hex_digit_value c) 0 ds"

definition is_lower_hex :: "char \<Rightarrow> bool" where
  "is_lower_hex c = (c \<in> set ''0123456789abcdef'')"

section \<open>Properties\<close>

subsection \<open>Floats\<close>

lemma float_le_simps [simp]:
  "float_le (Float x) (Float y) = (x \<le> y)"
  "\<not> float_le NaN b"
  "\<not> float_le a NaN"
  "float_le (Float x) PosInf"
  "\<not> float_le (Float x) NegInf"
  "float_le NegInf (Float y)"
  "\<not> float_le PosInf (Float y)"
  by (simp_all add: float_le_def split: pyfloat.splits)

lemma float_lt_simps [simp]:
  "float_lt (Float x) (Float y) = (x < y)"
  "\<not> float_lt NaN b"
  "\<not> float_lt a NaN"
  "float_lt (Float x) PosInf"
  "\<not> float_lt (Float x) NegInf"
  "float_lt NegInf (Float y)"
  "\<not> float_lt PosInf (Float y)"
  by (simp_all add: float_lt_def split: pyfloat.splits)

lemma float_not_le: "a \<noteq> NaN \<Longrightarrow> b \<noteq> NaN \<Longrightarrow> (\<not> float_le a b) = float_lt b a"
  by (cases a; cases b) (auto simp: float_le_def float_lt_def)

lemma float_not_lt: "a \<noteq> NaN \<Longrightarrow> b \<noteq> NaN \<Longrightarrow> (\<not> float_lt a b) = float_le b a"
  by (cases a; cases b) (auto simp: float_le_def float_lt_def)

lemma float_range_empty: "float_le a b \<Longrightarrow> float_le b c \<Longrightarrow> \<not> float_lt c a"
  by (cases a; cases b; cases c) (auto simp: float_le_def float_lt_def)

subsection \<open>The filter\<close>

lemma filter_loop_step:
  "filter_loop self (s # rest) acc =
     (if keeps self s then filter_loop self rest (acc @ [s]) else filter_loop self rest acc)"
  by (auto simp: keeps_def)

lemma filter_loop_filter:
  "filter_loop self spans acc = acc @ filter (keeps self) spans"
proof (induction spans arbitrary: acc)
  case Nil
  show ?case by simp
next
  case (Cons s rest)
  show ?case unfolding filter_loop_step by (simp add: Cons.IH)
qed

lemma filter_spans_filter: "filter_spans self spans = filter (keeps self) spans"
  by (simp add: filter_spans_def filter_loop_filter)

text \<open>
  On a bounding box without \<open>nan\<close> the check of \<open>_is_valid_bbox\<close> is the test of the
  specification.
\<close>

lemma is_valid_bbox_iff:
  assumes "x1 \<noteq> NaN" "y1 \<noteq> NaN" "x2 \<noteq> NaN" "y2 \<noteq> NaN"
  shows "is_valid_bbox (x1, y1, x2, y2) \<longleftrightarrow>
     float_lt x1 x2 \<and> float_lt y1 y2
       \<and> float_le (Float 0) x1 \<and> float_le x1 (Float 10000)
       \<and> float_le (Float 0) y1 \<and> float_le y1 (Float 10000)
       \<and> float_le (Float 0) x2 \<and> float_le x2 (Float 10000)
       \<and> float_le (Float 0) y2 \<and> float_le y2 (Float 10000)"
proof -
  have le: "float_le x2 x1 = (\<not> float_lt x1 x2)" "float_le y2 y1 = (\<not> float_lt y1 y2)"
    using assms float_not_le [of x2 x1] float_not_le [of y2 y1] by auto
  have lo: "float_lt c (Float 0) = (\<not> float_le (Float 0) c)"
    and hi: "float_lt (Float 10000) c = (\<not> float_le c (Float 10000))" if "c \<noteq> NaN" for c
    using that float_not_lt [of c "Float 0"] float_not_lt [of "Float 10000" c] by auto
  show ?thesis
    by (simp add: is_valid_bbox_def le lo [OF assms(1)] lo [OF assms(2)] lo [OF assms(3)]
          lo [OF assms(4)] hi [OF assms(1)] hi [OF assms(2)] hi [OF assms(3)] hi [OF assms(4)]
          conj_ac)
      blast
qed

lemma keeps_passes:
  assumes "case si_bbox s of (x1, y1, x2, y2) \<Rightarrow> x1 \<noteq> NaN \<and> y1 \<noteq> NaN \<and> x2 \<noteq> NaN \<and> y2 \<noteq> NaN"
  shows "keeps self s = passes_tests self s"
proof (cases "si_bbox s")
  case (fields x1 y1 x2 y2)
  with assms have "x1 \<noteq> NaN" "y1 \<noteq> NaN" "x2 \<noteq> NaN" "y2 \<noteq> NaN"
    by simp_all
  then have "is_valid_bbox (si_bbox s) \<longleftrightarrow>
     float_lt x1 x2 \<and> float_lt y1 y2
       \<and> float_le (Float 0) x1 \<and> float_le x1 (Float 10000)
       \<and> float_le (Float 0) y1 \<and> float_le y1 (Float 10000)
       \<and> float_le (Float 0) x2 \<and> float_le x2 (Float 10000)
       \<and> float_le (Float 0) y2 \<and> float_le y2 (Float 10000)"
    unfolding fields by (rule is_valid_bbox_iff)
  then show ?thesis
    by (simp add: keeps_def passes_tests_def fields not_less conj_ac)
qed


lemma dropWhile_fix: "xs = [] \<or> \<not> P (hd xs) \<Longrightarrow> dropWhile P xs = xs"
  by (cases xs) auto

text \<open>Stripping a stripped text changes nothing.\<close>

lemma strip_idem: "strip (strip s) = strip s"
proof -
  define u where "u = dropWhile isspace_char s"
  define v where "v = dropWhile isspace_char (rev u)"
  have u: "u = [] \<or> \<not> isspace_char (hd u)"
    unfolding u_def using hd_dropWhile [of isspace_char s] by blast
  have "rev u = takeWhile isspace_char (rev u) @ v"
    by (simp add: v_def)
  then have "rev (rev u) = rev (takeWhile isspace_char (rev u) @ v)"
    by simp
  then have split: "u = rev v @ rev (takeWhile isspace_char (rev u))"
    by simp
  have "rev v = [] \<or> \<not> isspace_char (hd (rev v))"
  proof (cases "rev v = []")
    case True
    then show ?thesis by simp
  next
    case False
    then have "hd u = hd (rev v)" and "u \<noteq> []"
      using split by (metis hd_append2, metis append_is_Nil_conv)
    with u show ?thesis by simp
  qed
  then have 1: "dropWhile isspace_char (rev v) = rev v"
    by (rule dropWhile_fix)
  have 2: "dropWhile isspace_char v = v"
    by (simp add: v_def)
  have "strip s = rev v"
    by (simp add: strip_def u_def v_def)
  then show ?thesis
    by (simp add: strip_def 1 2)
qed

text \<open>
  Claim C3 as stated fails. The filter tests the length of the text as the record holds
  it and does not strip it: a record with the text \<open>" a"\<close>, of stripped length 1, is kept.
  And a bounding box with a \<open>nan\<close> coordinate passes \<open>_is_valid_bbox\<close>, every comparison with
  \<open>nan\<close> being false, although \<open>x2 > x1\<close> does not hold.
\<close>

theorem filter_spans_counterexample:
  "filter_spans default_extractor [example_span '' a'' 12 (0, 0, 100, 20)]
     = [example_span '' a'' 12 (0, 0, 100, 20)]
   \<and> length (strip (si_text (example_span '' a'' 12 (0, 0, 100, 20)))) = 1
   \<and> filter_spans default_extractor
        [\<lparr>si_text = ''Intro'', si_bbox = (NaN, Float 0, Float 100, Float 20), si_size = Float 12,
          si_page = 1, si_font = ''Helvetica'', si_is_bold = False, si_is_italic = False,
          si_color = ''black''\<rparr>]
     = [\<lparr>si_text = ''Intro'', si_bbox = (NaN, Float 0, Float 100, Float 20), si_size = Float 12,
          si_page = 1, si_font = ''Helvetica'', si_is_bold = False, si_is_italic = False,
          si_color = ''black''\<rparr>]
   \<and> \<not> float_lt NaN (Float 100)"
  by (simp add: filter_spans_def example_span_def default_extractor_def strip_def
        isspace_char_def code_point_def is_mostly_special_chars_def isalnum_char_def
        is_valid_bbox_def)

text \<open>
  Claim C3, as amended. For every sequence of records and every configuration,
  \<open>_filter_spans\<close> returns a subsequence of its input, without failure; and of the records
  whose bounding box has no \<open>nan\<close> coordinate it keeps exactly those that pass the four
  tests: size within \<open>[min_font_size, max_font_size]\<close>, a text of at least two characters
  as the record holds it (the filter does not strip it again), not mostly special
  characters, and a bounding box with \<open>x2 > x1\<close>, \<open>y2 > y1\<close> and the four coordinates in
  \<open>[0, 10000]\<close>.
\<close>

theorem filter_spans_spec:
  "subseq (filter_spans self spans) spans
   \<and> ((\<forall>s \<in> set spans. (case si_bbox s of (x1, y1, x2, y2) \<Rightarrow> x1 \<noteq> NaN \<and> y1 \<noteq> NaN \<and> x2 \<noteq> NaN \<and> y2 \<noteq> NaN)) \<longrightarrow>
        filter_spans self spans =
          filter (\<lambda>s. case si_bbox s of (x1, y1, x2, y2) \<Rightarrow>
               float_le (min_font_size self) (si_size s) \<and> float_le (si_size s) (max_font_size self)
               \<and> 2 \<le> length (si_text s)
               \<and> \<not> is_mostly_special_chars (si_text s)
               \<and> float_lt x1 x2 \<and> float_lt y1 y2
               \<and> float_le (Float 0) x1 \<and> float_le x1 (Float 10000)
               \<and> float_le (Float 0) y1 \<and> float_le y1 (Float 10000)
               \<and> float_le (Float 0) x2 \<and> float_le x2 (Float 10000)
               \<and> float_le (Float 0) y2 \<and> float_le y2 (Float 10000)) spans)
   \<and> (\<forall>s \<in> set spans. (case si_bbox s of (x1, y1, x2, y2) \<Rightarrow> x1 \<noteq> NaN \<and> y1 \<noteq> NaN \<and> x2 \<noteq> NaN \<and> y2 \<noteq> NaN) \<longrightarrow>
        (s \<in> set (filter_spans self spans) \<longleftrightarrow>
           (case si_bbox s of (x1, y1, x2, y2) \<Rightarrow>
               float_le (min_font_size self) (si_size s) \<and> float_le (si_size s) (max_font_size self)
               \<and> 2 \<le> length (si_text s)
               \<and> \<not> is_mostly_special_chars (si_text s)
               \<and> float_lt x1 x2 \<and> float_lt y1 y2
               \<and> float_le (Float 0) x1 \<and> float_le x1 (Float 10000)
               \<and> float_le (Float 0) y1 \<and> float_le y1 (Float 10000)
               \<and> float_le (Float 0) x2 \<and> float_le x2 (Float 10000)
               \<and> float_le (Float 0) y2 \<and> float_le y2 (Float 10000))))"
proof (intro conjI impI ballI)
  show "subseq (filter_spans self spans) spans"
    by (simp add: filter_spans_filter)
next
  assume "\<forall>s \<in> set spans. (case si_bbox s of (x1, y1, x2, y2) \<Rightarrow> x1 \<noteq> NaN \<and> y1 \<noteq> NaN \<and> x2 \<noteq> NaN \<and> y2 \<noteq> NaN)"
  then have "filter (keeps self) spans = filter (passes_tests self) spans"
    by (intro filter_cong refl) (simp add: keeps_passes)
  then show "filter_spans self spans =
          filter (\<lambda>s. case si_bbox s of (x1, y1, x2, y2) \<Rightarrow>
               float_le (min_font_size self) (si_size s) \<and> float_le (si_size s) (max_font_size self)
               \<and> 2 \<le> length (si_text s)
               \<and> \<not> is_mostly_special_chars (si_text s)
               \<and> float_lt x1 x2 \<and> float_lt y1 y2
               \<and> float_le (Float 0) x1 \<and> float_le x1 (Float 10000)
               \<and> float_le (Float 0) y1 \<and> float_le y1 (Float 10000)
               \<and> float_le (Float 0) x2 \<and> float_le x2 (Float 10000)
               \<and> float_le (Float 0) y2 \<and> float_le y2 (Float 10000)) spans"
    unfolding filter_spans_filter passes_tests_def .
next
  fix s
  assume "s \<in> set spans" and "case si_bbox s of (x1, y1, x2, y2) \<Rightarrow> x1 \<noteq> NaN \<and> y1 \<noteq> NaN \<and> x2 \<noteq> NaN \<and> y2 \<noteq> NaN"
  then have "s \<in> set (filter_spans self spans) \<longleftrightarrow> passes_tests self s"
    by (simp add: filter_spans_filter keeps_passes)
  then show "s \<in> set (filter_spans self spans) \<longleftrightarrow>
           (case si_bbox s of (x1, y1, x2, y2) \<Rightarrow>
               float_le (min_font_size self) (si_size s) \<and> float_le (si_size s) (max_font_size self)
               \<and> 2 \<le> length (si_text s)
               \<and> \<not> is_mostly_special_chars (si_text s)
               \<and> float_lt x1 x2 \<and> float_lt y1 y2
               \<and> float_le (Float 0) x1 \<and> float_le x1 (Float 10000)
               \<and> float_le (Float 0) y1 \<and> float_le y1 (Float 10000)
               \<and> float_le (Float 0) x2 \<and> float_le x2 (Float 10000)
               \<and> float_le (Float 0) y2 \<and> float_le y2 (Float 10000))"
    unfolding passes_tests_def .
qed

text \<open>
  With the default configuration a record of size 5.9 is rejected and one of size 6.0 is
  kept.
\<close>

theorem filter_spans_spec_witness:
  "(case si_bbox (example_span ''Intro'' (59 / 10) (0, 0, 100, 20)) of
      (x1, y1, x2, y2) \<Rightarrow> x1 \<noteq> NaN \<and> y1 \<noteq> NaN \<and> x2 \<noteq> NaN \<and> y2 \<noteq> NaN)
   \<and> (case si_bbox (example_span ''Intro'' 6 (0, 0, 100, 20)) of
      (x1, y1, x2, y2) \<Rightarrow> x1 \<noteq> NaN \<and> y1 \<noteq> NaN \<and> x2 \<noteq> NaN \<and> y2 \<noteq> NaN)
   \<and> filter_spans default_extractor
        [example_span ''Intro'' (59 / 10) (0, 0, 100, 20), example_span ''Intro'' 6 (0, 0, 100, 20)]
      = [example_span ''Intro'' 6 (0, 0, 100, 20)]"
  using filter_spans_spec [of default_extractor
      "[example_span ''Intro'' (59 / 10) (0, 0, 100, 20), example_span ''Intro'' 6 (0, 0, 100, 20)]"]
  by (simp add: example_span_def default_extractor_def
        is_mostly_special_chars_def isalnum_char_def code_point_def)

text \<open>
  Claim C9. The filter is idempotent: for every sequence of records and every
  configuration, filtering the filtered sequence gives the filtered sequence.
\<close>

theorem filter_spans_idempotent:
  "filter_spans self (filter_spans self spans) = filter_spans self spans"
  by (simp add: filter_spans_filter)

theorem filter_spans_idempotent_witness:
  "filter_spans default_extractor
     (filter_spans default_extractor
        [example_span ''Intro'' (59 / 10) (0, 0, 100, 20), example_span ''Intro'' 6 (0, 0, 100, 20)])
   = [example_span ''Intro'' 6 (0, 0, 100, 20)]"
  using filter_spans_idempotent [of default_extractor
      "[example_span ''Intro'' (59 / 10) (0, 0, 100, 20), example_span ''Intro'' 6 (0, 0, 100, 20)]"]
  by (simp add: filter_spans_def example_span_def default_extractor_def
        is_mostly_special_chars_def isalnum_char_def code_point_def is_valid_bbox_def)

lemma inverted_range_rejects:
  "float_lt (max_font_size self) (min_font_size self) \<Longrightarrow> \<not> keeps self s"
  using float_range_empty [of "min_font_size self" "si_size s" "max_font_size self"]
  by (auto simp: keeps_def)

lemma filter_spans_inverted:
  "float_lt (max_font_size self) (min_font_size self) \<Longrightarrow> filter_spans self spans = []"
  by (simp add: filter_spans_filter inverted_range_rejects)

lemma mostly_special_count:
  "is_mostly_special_chars txt \<longleftrightarrow>
     3 \<le> length txt \<and> 10 * length (filter isalnum_char txt) < 3 * length txt"
proof (cases "length txt < 3")
  case True
  then show ?thesis by (simp add: is_mostly_special_chars_def)
next
  case False
  then have "0 < length txt" by arith
  then have pos: "(0::rat) < of_nat (length txt)" by simp
  have "(of_nat (length (filter isalnum_char txt)) / of_nat (length txt) :: rat) < 3 / 10
        \<longleftrightarrow> (of_nat (10 * length (filter isalnum_char txt)) :: rat) < of_nat (3 * length txt)"
    using pos by (simp add: field_simps)
  also have "\<dots> \<longleftrightarrow> 10 * length (filter isalnum_char txt) < 3 * length txt"
    by (rule of_nat_less_iff)
  finally show ?thesis using False by (simp add: is_mostly_special_chars_def Let_def)
qed

subsection \<open>The page walk and the document loop\<close>

lemma walk_items_append:
  "walk_items (a @ b) n acc =
     (case walk_items a n acc of (s, Some e) \<Rightarrow> (s, Some e) | (s, None) \<Rightarrow> walk_items b n s)"
  by (induction a arbitrary: acc) (auto split: sum.splits option.splits)

lemma walk_spans_items: "walk_spans rs n acc = walk_items (map Inr rs) n acc"
  by (induction rs arbitrary: acc) (auto simp: step_result_def split: sum.splits option.splits)

lemma walk_lines_items: "walk_lines ls n acc = walk_items (concat (map line_items ls)) n acc"
proof (induction ls arbitrary: acc)
  case Nil
  show ?case by simp
next
  case (Cons l ls)
  show ?case
  proof (cases l)
    case (Line x)
    show ?thesis
    proof (cases x)
      case None
      with Line show ?thesis by (simp add: step_result_def)
    next
      case (Some rs)
      with Line show ?thesis
        by (simp add: walk_items_append walk_spans_items Cons.IH split: prod.splits option.splits)
    qed
  qed
qed

lemma walk_blocks_items: "walk_blocks bs n acc = walk_items (page_items bs) n acc"
proof (induction bs arbitrary: acc)
  case Nil
  show ?case by (simp add: page_items_def)
next
  case (Cons b bs)
  show ?case
  proof (cases b)
    case (Block x)
    show ?thesis
    proof (cases x)
      case None
      with Block Cons.IH show ?thesis by (simp add: page_items_def)
    next
      case (Some ls)
      with Block Cons.IH show ?thesis
        by (simp add: page_items_def walk_items_append walk_lines_items split: prod.splits option.splits)
    qed
  qed
qed

lemma walk_items_ok:
  "\<forall>it \<in> set its. \<not> isl (step_result n it) \<Longrightarrow> walk_items its n acc = (acc @ built n its, None)"
proof (induction its arbitrary: acc)
  case Nil
  show ?case by (simp add: built_def)
next
  case (Cons it its)
  then show ?case
    by (cases "step_result n it") (auto simp: built_def split: option.splits)
qed

lemma walk_items_fail:
  assumes "\<forall>it \<in> set pre. \<not> isl (step_result n it)" and "step_result n bad = Inl e"
  shows "walk_items (pre @ bad # post) n acc = (acc @ built n pre, Some e)"
  using assms by (simp add: walk_items_append walk_items_ok)

lemma extract_page_spans_fail:
  assumes "page_blocks pg = Inr blocks" and "page_items blocks = pre @ bad # post"
    and "\<forall>it \<in> set pre. \<not> isl (step_result n it)" and "step_result n bad = Inl e"
  shows "extract_page_spans pg n lg = (built n pre, lg @ [Warning n e])"
  using assms walk_items_fail [of pre n bad e post "[]"]
  by (simp add: extract_page_spans_def walk_blocks_items)

lemma extract_page_spans_ok:
  assumes "page_blocks pg = Inr blocks" and "\<forall>it \<in> set (page_items blocks). \<not> isl (step_result n it)"
  shows "extract_page_spans pg n lg = (built n (page_items blocks), lg)"
  using assms walk_items_ok [of "page_items blocks" n "[]"]
  by (simp add: extract_page_spans_def walk_blocks_items)

lemma extract_page_spans_log:
  "extract_page_spans pg n lg = (fst (extract_page_spans pg n []), lg @ snd (extract_page_spans pg n []))"
  by (simp add: extract_page_spans_def split: sum.splits prod.splits option.splits)

lemma page_loop_loaded:
  "page_loop (map Inr pgs) n acc lg = (Inr (acc @ page_records pgs n), lg @ page_warnings pgs n)"
proof (induction pgs arbitrary: n acc lg)
  case Nil
  show ?case by simp
next
  case (Cons p ps)
  have "extract_page_spans p n lg = (fst (extract_page_spans p n []), lg @ snd (extract_page_spans p n []))"
    by (rule extract_page_spans_log)
  then show ?case by (simp add: Cons.IH)
qed

lemma extract_text_spans_loaded:
  "fitz_open path = Inr (Document (map Inr pgs)) \<Longrightarrow>
   extract_text_spans fitz_open self path lg =
     (Inr (filter_spans self (page_records pgs 1)), lg @ page_warnings pgs 1)"
  by (simp add: extract_text_spans_def page_loop_loaded)

lemma page_records_append:
  "page_records (ps @ qs) n = page_records ps n @ page_records qs (n + int (length ps))"
  by (induction ps arbitrary: n) (auto simp: algebra_simps)

text \<open>
  The text of every record of the page walk is stripped: on the records that the
  document loop hands to the filter, the length that the filter tests is that of a
  stripped text.
\<close>

lemma SpanInfo_init_text:
  "SpanInfo_init txt bbox sz pg fnt bold italic col = Inr s \<Longrightarrow> si_text s = txt"
  by (auto simp: SpanInfo_init_def split: if_splits)

lemma run_body_text_stripped:
  assumes "run_body sp n = Inr (Some s)"
  shows "strip (si_text s) = si_text s"
proof -
  from assms obtain t where t: "run_text sp = Some t"
    by (cases "run_text sp") (simp_all add: run_body_def)
  from assms t have "si_text s = strip t"
    by (auto simp: run_body_def Let_def SpanInfo_init_text
          split: if_splits option.splits sum.splits)
  then show ?thesis
    by (simp add: strip_idem)
qed

lemma walk_items_text_stripped:
  "\<forall>s \<in> set acc. strip (si_text s) = si_text s \<Longrightarrow>
   \<forall>s \<in> set (fst (walk_items its n acc)). strip (si_text s) = si_text s"
proof (induction its arbitrary: acc)
  case Nil
  then show ?case by simp
next
  case (Cons it its)
  show ?case
  proof (cases "step_result n it")
    case (Inl e)
    with Cons.prems show ?thesis by simp
  next
    case (Inr r)
    show ?thesis
    proof (cases r)
      case None
      with Inr Cons show ?thesis by simp
    next
      case (Some s)
      with Inr have "strip (si_text s) = si_text s"
        by (cases it) (simp_all add: step_result_def run_body_text_stripped)
      with Cons.prems have "\<forall>x \<in> set (acc @ [s]). strip (si_text x) = si_text x"
        by auto
      from Cons.IH [OF this] Inr Some show ?thesis by simp
    qed
  qed
qed

lemma extract_page_spans_text_stripped:
  "s \<in> set (fst (extract_page_spans pg n lg)) \<Longrightarrow> strip (si_text s) = si_text s"
proof (cases "page_blocks pg")
  case (Inl e)
  assume "s \<in> set (fst (extract_page_spans pg n lg))"
  with Inl show ?thesis by (simp add: extract_page_spans_def)
next
  case (Inr blocks)
  assume a: "s \<in> set (fst (extract_page_spans pg n lg))"
  have "fst (extract_page_spans pg n lg) = fst (walk_items (page_items blocks) n [])"
    using Inr by (simp add: extract_page_spans_def walk_blocks_items split: prod.splits option.splits)
  with a walk_items_text_stripped [of "[]" "page_items blocks" n] show ?thesis
    by simp
qed

lemma page_records_text_stripped:
  "s \<in> set (page_records pgs n) \<Longrightarrow> strip (si_text s) = si_text s"
  by (induction pgs arbitrary: n) (auto simp: extract_page_spans_text_stripped)

subsection \<open>Substrings, flag bits and hexadecimal digits\<close>

lemma str_in_sublist: "str_in sub s \<longleftrightarrow> sublist sub s"
  by (induction s) (simp_all add: sublist_Cons_right)

lemma flag_bit: "and (g::int) 16 \<noteq> 0 \<longleftrightarrow> bit g 4" "and (g::int) 2 \<noteq> 0 \<longleftrightarrow> bit g 1"
  using and_exp_eq_0_iff_not_bit [of g 4] and_exp_eq_0_iff_not_bit [of g 1] by simp_all

lemma lt16: "(d::nat) < 16 \<Longrightarrow> d \<in> {0, 1, 2, 3, 4, 5, 6, 7, 8, 9, 10, 11, 12, 13, 14, 15}"
  by (simp only: insert_iff empty_iff) arith

lemma hex_digit_props:
  "d < 16 \<Longrightarrow> hex_digit_value (hex_digit d) = d \<and> is_lower_hex (hex_digit d)"
  by (drule lt16) (auto simp: hex_digit_def hex_digit_value_def is_lower_hex_def code_point_def)

lemma hex_value_snoc: "hex_value (ds @ [c]) = 16 * hex_value ds + hex_digit_value c"
  by (simp add: hex_value_def)

lemma hex_of_nat_value: "hex_value (hex_of_nat n) = n"
proof (induction n rule: hex_of_nat.induct)
  case (1 n)
  show ?case
  proof (cases "n < 16")
    case True
    then show ?thesis
      using hex_digit_props [of n] by (subst hex_of_nat.simps) (simp add: hex_value_def)
  next
    case False
    have "n mod 16 < 16" by simp
    then have d: "hex_digit_value (hex_digit (n mod 16)) = n mod 16"
      using hex_digit_props by blast
    from False have "hex_of_nat n = hex_of_nat (n div 16) @ [hex_digit (n mod 16)]"
      by (subst hex_of_nat.simps) simp
    then show ?thesis
      using "1.IH" [OF False] d by (simp add: hex_value_snoc)
  qed
qed

lemma hex_of_nat_digits: "list_all is_lower_hex (hex_of_nat n)"
proof (induction n rule: hex_of_nat.induct)
  case (1 n)
  have "n mod 16 < 16" by simp
  then have d: "is_lower_hex (hex_digit (n mod 16))"
    using hex_digit_props by blast
  show ?case
  proof (cases "n < 16")
    case True
    then show ?thesis
      using hex_digit_props [of n] by (subst hex_of_nat.simps) simp
  next
    case False
    then show ?thesis
      using "1.IH" [OF False] d by (subst hex_of_nat.simps) simp
  qed
qed

lemma hex_of_nat_length: "length (hex_of_nat n) \<le> k \<longleftrightarrow> n < 16 ^ k \<and> 0 < k"
proof (induction n arbitrary: k rule: hex_of_nat.induct)
  case (1 n)
  show ?case
  proof (cases "n < 16")
    case True
    have "hex_of_nat n = [hex_digit n]"
      using True by (subst hex_of_nat.simps) simp
    moreover have "n < 16 ^ k" if "0 < k"
    proof -
      have "(16::nat) ^ 1 \<le> 16 ^ k" using that by (intro power_increasing) auto
      with True show ?thesis by simp
    qed
    ultimately show ?thesis by (cases k) auto
  next
    case False
    have eq: "hex_of_nat n = hex_of_nat (n div 16) @ [hex_digit (n mod 16)]"
      using False by (subst hex_of_nat.simps) simp
    show ?thesis
    proof (cases k)
      case 0
      then show ?thesis by (simp add: eq)
    next
      case (Suc j)
      have "length (hex_of_nat n) \<le> Suc j \<longleftrightarrow> length (hex_of_nat (n div 16)) \<le> j"
        by (simp add: eq)
      also have "\<dots> \<longleftrightarrow> n div 16 < 16 ^ j \<and> 0 < j"
        by (rule "1.IH" [OF False])
      also have "\<dots> \<longleftrightarrow> n < 16 ^ Suc j"
      proof (cases j)
        case 0
        then show ?thesis using False by simp
      next
        case (Suc i)
        have "n div 16 < 16 ^ j \<longleftrightarrow> n < 16 ^ j * 16"
          by (simp add: div_less_iff_less_mult)
        then show ?thesis using Suc by (simp add: mult.commute)
      qed
      finally show ?thesis using Suc by simp
    qed
  qed
qed

lemma hex_value_replicate: "hex_value (replicate k (CHR ''0'') @ ds) = hex_value ds"
proof -
  have "foldl (\<lambda>v c. 16 * v + hex_digit_value c) 0 (replicate k (CHR ''0'')) = 0"
    by (induction k) (simp_all add: hex_digit_value_def code_point_def)
  then show ?thesis by (simp add: hex_value_def)
qed

lemma zero_pad_value: "hex_value (zero_pad w ds) = hex_value ds"
  by (simp add: zero_pad_def hex_value_replicate)

lemma zero_is_lower_hex: "is_lower_hex (CHR ''0'')"
  by (simp add: is_lower_hex_def)

lemma zero_pad_digits: "list_all is_lower_hex ds \<Longrightarrow> list_all is_lower_hex (zero_pad w ds)"
  using zero_is_lower_hex by (auto simp: zero_pad_def list_all_iff)

lemma zero_pad_length: "length (zero_pad w ds) = max w (length ds)"
  by (simp add: zero_pad_def)


lemma format_06x_pos:
  assumes "0 < c"
  shows "list_all is_lower_hex (format_06x c) \<and> int (hex_value (format_06x c)) = c
         \<and> (length (format_06x c) = 6 \<longleftrightarrow> c < 2 ^ 24)"
proof -
  let ?h = "hex_of_nat (nat c)"
  have f: "format_06x c = zero_pad 6 ?h"
    using assms by (simp add: format_06x_def)
  have len: "length ?h \<le> 6 \<longleftrightarrow> nat c < 16 ^ 6"
    using hex_of_nat_length [of "nat c" 6] by simp
  have "(nat c < 16 ^ 6) = (c < 2 ^ 24)"
    using assms by (simp add: nat_less_iff)
  moreover have "length (zero_pad 6 ?h) = 6 \<longleftrightarrow> length ?h \<le> 6"
    unfolding zero_pad_length by arith
  ultimately have "length (zero_pad 6 ?h) = 6 \<longleftrightarrow> c < 2 ^ 24"
    using len by simp
  moreover have "int (hex_value (zero_pad 6 ?h)) = c"
    using assms by (simp add: zero_pad_value hex_of_nat_value)
  moreover have "list_all is_lower_hex (zero_pad 6 ?h)"
    by (rule zero_pad_digits) (rule hex_of_nat_digits)
  ultimately show ?thesis by (simp add: f)
qed

section \<open>The claims on the value object and the helpers\<close>

text \<open>
  On every size but \<open>nan\<close> the constructor succeeds if and only if \<open>page >= 1\<close>, \<open>size > 0\<close>
  and \<open>bbox\<close> has exactly four coordinates, it fails with \<open>ValueError\<close> otherwise, and a
  record that is constructed holds the values it was given, unchanged.
\<close>

lemma SpanInfo_init_iff:
  assumes "sz \<noteq> NaN"
  shows "((\<exists>s. SpanInfo_init txt bbox sz pg fnt bold italic col = Inr s)
      \<longleftrightarrow> 1 \<le> pg \<and> float_lt (Float 0) sz \<and> length bbox = 4)
   \<and> (\<not> (1 \<le> pg \<and> float_lt (Float 0) sz \<and> length bbox = 4)
      \<longrightarrow> (\<exists>m. SpanInfo_init txt bbox sz pg fnt bold italic col = Inl (ValueError m)))
   \<and> (\<forall>s. SpanInfo_init txt bbox sz pg fnt bold italic col = Inr s \<longrightarrow>
        si_text s = txt \<and> (case si_bbox s of (x1, y1, x2, y2) \<Rightarrow> [x1, y1, x2, y2] = bbox)
        \<and> si_size s = sz \<and> si_page s = pg \<and> si_font s = fnt
        \<and> si_is_bold s = bold \<and> si_is_italic s = italic \<and> si_color s = col)"
proof -
  have four: "[bbox ! 0, bbox ! 1, bbox ! 2, bbox ! 3] = bbox" if "length bbox = 4"
    using that by (intro nth_equalityI) (auto simp: nth_Cons' numeral_eq_Suc less_Suc_eq)
  have pos: "(\<not> float_le sz (Float 0)) = float_lt (Float 0) sz"
    using assms by (simp add: float_not_le)
  show ?thesis
    using four pos by (auto simp: SpanInfo_init_def)
qed

text \<open>
  Claim C6. The claim is that the construction succeeds only if \<open>size > 0\<close>. The code
  raises \<open>Font size must be positive\<close> when \<open>size <= 0\<close>, and that comparison is false for
  \<open>nan\<close>: with the size \<open>nan\<close>, a page of 1 and four coordinates the record is constructed,
  although \<open>size > 0\<close> does not hold.
\<close>

theorem SpanInfo_init_nan:
  "SpanInfo_init ''Intro'' [Float 10, Float 10, Float 100, Float 25] NaN 1 ''Helvetica'' True False
      ''black''
     = Inr \<lparr>si_text = ''Intro'', si_bbox = (Float 10, Float 10, Float 100, Float 25),
            si_size = NaN, si_page = 1, si_font = ''Helvetica'', si_is_bold = True,
            si_is_italic = False, si_color = ''black''\<rparr>
   \<and> \<not> float_lt (Float 0) NaN"
  by (simp add: SpanInfo_init_def)

text \<open>
  Claim C7. In the special-character test a text of fewer than three characters is
  exempt, and for a text of three or more characters the test rejects exactly when the
  fraction of alphanumeric characters is below 0.3, that is when ten times their number
  is below three times the length; a record whose text the test rejects is dropped by the
  filter. The text \<open>!!\<close> is never rejected by the test, \<open>a!!!!!!!\<close> (fraction 1/8) is
  rejected, and \<open>abc!!!!!!!\<close> (fraction exactly 0.3) is accepted.
\<close>

theorem mostly_special_iff:
  "(length txt < 3 \<longrightarrow> \<not> is_mostly_special_chars txt)
   \<and> (3 \<le> length txt \<longrightarrow>
        (is_mostly_special_chars txt \<longleftrightarrow>
           (of_nat (length (filter isalnum_char txt)) / of_nat (length txt) :: rat) < 3 / 10))
   \<and> (is_mostly_special_chars txt \<longleftrightarrow>
        3 \<le> length txt \<and> 10 * length (filter isalnum_char txt) < 3 * length txt)
   \<and> (is_mostly_special_chars (si_text s) \<longrightarrow> filter_spans self [s] = [])"
proof -
  have "filter_spans self [s] = []" if "is_mostly_special_chars (si_text s)"
    using that by (simp add: filter_spans_filter keeps_def)
  moreover have "is_mostly_special_chars txt \<longleftrightarrow>
        3 \<le> length txt \<and> 10 * length (filter isalnum_char txt) < 3 * length txt"
    by (rule mostly_special_count)
  ultimately show ?thesis
    by (simp add: is_mostly_special_chars_def Let_def)
qed

theorem mostly_special_iff_witness:
  "\<not> is_mostly_special_chars ''!!'' \<and> is_mostly_special_chars ''a!!!!!!!''
   \<and> \<not> is_mostly_special_chars ''abc!!!!!!!''
   \<and> filter_spans default_extractor [example_span ''!!'' 12 (0, 0, 100, 20)]
        = [example_span ''!!'' 12 (0, 0, 100, 20)]
   \<and> filter_spans default_extractor [example_span ''a!!!!!!!'' 12 (0, 0, 100, 20)] = []
   \<and> filter_spans default_extractor [example_span ''abc!!!!!!!'' 12 (0, 0, 100, 20)]
        = [example_span ''abc!!!!!!!'' 12 (0, 0, 100, 20)]"
  using mostly_special_iff [of "''!!''" "example_span ''!!'' 12 (0, 0, 100, 20)" default_extractor]
    mostly_special_iff [of "''a!!!!!!!''" "example_span ''a!!!!!!!'' 12 (0, 0, 100, 20)" default_extractor]
    mostly_special_iff [of "''abc!!!!!!!''" "example_span ''abc!!!!!!!'' 12 (0, 0, 100, 20)" default_extractor]
  by (simp add: isalnum_char_def code_point_def example_span_def default_extractor_def
        filter_spans_def is_valid_bbox_def is_mostly_special_chars_def)

text \<open>
  Claim C8. For every font name \<open>f\<close> and flag bitmask \<open>g\<close>, \<open>_parse_font_info\<close> gives
  \<open>is_bold\<close> true exactly when the bit of value 16 is set in \<open>g\<close> or the lowercase \<open>f\<close>
  contains \<open>bold\<close>, and \<open>is_italic\<close> true exactly when the bit of value 2 is set in \<open>g\<close> or
  the lowercase \<open>f\<close> contains \<open>italic\<close>; a run without the two keys has the defaults, the
  empty name and no flag. The function is total and has no effect. Flags 18 give both
  true, and so does the font name \<open>Arial-BoldItalic\<close> with flags 0.
\<close>

theorem parse_font_info_style:
  "parse_font_info \<lparr>run_text = t, run_bbox = b, run_size = z, run_font = Some f,
                     run_flags = Some g, run_color = c\<rparr>
     = \<lparr>font_name = f,
        is_bold = (bit g 4 \<or> sublist ''bold'' (lower f)),
        is_italic = (bit g 1 \<or> sublist ''italic'' (lower f)),
        flags = g\<rparr>
   \<and> parse_font_info \<lparr>run_text = t, run_bbox = b, run_size = z, run_font = None,
                       run_flags = None, run_color = c\<rparr>
     = \<lparr>font_name = [], is_bold = False, is_italic = False, flags = 0\<rparr>"
  by (simp add: parse_font_info_def str_in_sublist flag_bit lower_def)

theorem parse_font_info_style_witness:
  "parse_font_info \<lparr>run_text = None, run_bbox = None, run_size = None, run_font = Some [],
                     run_flags = Some 18, run_color = None\<rparr>
     = \<lparr>font_name = [], is_bold = True, is_italic = True, flags = 18\<rparr>
   \<and> parse_font_info \<lparr>run_text = None, run_bbox = None, run_size = None,
                       run_font = Some ''Arial-BoldItalic'', run_flags = Some 0, run_color = None\<rparr>
     = \<lparr>font_name = ''Arial-BoldItalic'', is_bold = True, is_italic = True, flags = 0\<rparr>
   \<and> parse_font_info \<lparr>run_text = None, run_bbox = None, run_size = None,
                       run_font = Some ''Helvetica'', run_flags = Some 16, run_color = None\<rparr>
     = \<lparr>font_name = ''Helvetica'', is_bold = True, is_italic = False, flags = 16\<rparr>"
proof -
  have l1: "lower ''Arial-BoldItalic'' = ''arial-bolditalic''"
    and l2: "lower ''Helvetica'' = ''helvetica''"
    by code_simp+
  have b: "bit (18::int) 4" "bit (18::int) 1" "bit (16::int) 4" "\<not> bit (16::int) 1"
    "\<not> bit (0::int) 4" "\<not> bit (0::int) 1"
    by (simp_all add: bit_iff_odd_drop_bit drop_bit_eq_div)
  show ?thesis
    using parse_font_info_style [of None None None "[]" 18 None]
      parse_font_info_style [of None None None "''Arial-BoldItalic''" 0 None]
      parse_font_info_style [of None None None "''Helvetica''" 16 None]
    by (simp add: l1 l2 b str_in_sublist [symmetric])
qed

section \<open>The claims on the page walk and the document loop\<close>

subsection \<open>The example runs\<close>

lemma lower_helvetica: "lower ''Helvetica'' = ''helvetica''"
  by code_simp

lemma example_run_font:
  "parse_font_info (example_run txt sz)
     = \<lparr>font_name = ''Helvetica'', is_bold = True, is_italic = False, flags = 16\<rparr>"
  by (simp add: parse_font_info_def example_run_def lower_helvetica)

lemma example_run_color: "parse_color (example_run txt sz) = ''black''"
  by (simp add: parse_color_def example_run_def)

lemma example_run_fields:
  "run_text (example_run txt sz) = Some txt"
  "run_bbox (example_run txt sz) = Some [Float 10, Float 10, Float 100, Float 25]"
  "run_size (example_run txt sz) = Some (Float sz)"
  by (simp_all add: example_run_def)

lemma example_run_body:
  "0 < sz \<Longrightarrow> strip txt = txt \<Longrightarrow> txt \<noteq> [] \<Longrightarrow> \<not> isspace txt \<Longrightarrow>
     run_body (example_run txt sz) n =
       (if n < 1 then Inl (ValueError ''Page number must be positive'')
        else Inr (Some (example_record txt sz n)))"
  by (simp add: run_body_def example_run_font example_run_color example_run_fields
        SpanInfo_init_def example_record_def)

lemma example_run_body_zero:
  "strip txt = txt \<Longrightarrow> txt \<noteq> [] \<Longrightarrow> \<not> isspace txt \<Longrightarrow>
     run_body (example_run txt 0) 1 = Inl (ValueError ''Font size must be positive'')"
  by (simp add: run_body_def example_run_font example_run_color example_run_fields
        SpanInfo_init_def)

lemma example_texts:
  "strip ''Intro'' = ''Intro''" "\<not> isspace ''Intro''"
  "strip ''Second'' = ''Second''" "\<not> isspace ''Second''"
  "strip ''Third'' = ''Third''" "\<not> isspace ''Third''"
  by (simp_all add: strip_def isspace_def isspace_char_def code_point_def)

lemma page_warnings_append:
  "page_warnings (ps @ qs) n = page_warnings ps n @ page_warnings qs (n + int (length ps))"
  by (induction ps arbitrary: n) (auto simp: algebra_simps)

lemma example_page_spans:
  "0 < sz \<Longrightarrow> strip txt = txt \<Longrightarrow> txt \<noteq> [] \<Longrightarrow> \<not> isspace txt \<Longrightarrow> 1 \<le> n \<Longrightarrow>
     extract_page_spans (example_page [example_run txt sz]) n lg = ([example_record txt sz n], lg)"
  by (simp add: extract_page_spans_def example_page_def example_run_body)

lemma example_record_passes:
  "keeps default_extractor (example_record ''Intro'' 14 1)"
  "keeps default_extractor (example_record ''Second'' 14 2)"
  "keeps default_extractor (example_record ''Third'' 12 3)"
  by (simp_all add: keeps_def is_valid_bbox_def default_extractor_def example_record_def
        is_mostly_special_chars_def isalnum_char_def code_point_def)

subsection \<open>A run that fails validation\<close>

text \<open>
  Claim C1, as amended. The method has one \<open>try\<close>, around the three loops, so a
  \<open>ValueError\<close> of the \<open>SpanInfo\<close> constructor for one run ends the walk of its page: the
  page yields exactly the records built from the steps before that run, in block, line
  and run order, and a warning is logged; the runs after it on that page yield no record.
\<close>

theorem invalid_span_ends_page:
  assumes "page_blocks pg = Inr blocks"
    and "page_items blocks = pre @ Inr bad # post"
    and "\<forall>it \<in> set pre. \<not> isl (step_result n it)"
    and "run_body bad n = Inl (ValueError m)"
  shows "extract_page_spans pg n lg = (built n pre, lg @ [Warning n (ValueError m)])"
  using assms extract_page_spans_fail [of pg blocks pre "Inr bad" post n "ValueError m" lg]
  by (simp add: step_result_def)

theorem invalid_span_ends_page_witness:
  "page_blocks (example_page [example_run ''Intro'' 14, example_run ''Second'' 0, example_run ''Third'' 12])
     = Inr [Block (Some [Line (Some [example_run ''Intro'' 14, example_run ''Second'' 0, example_run ''Third'' 12])])]
   \<and> page_items [Block (Some [Line (Some [example_run ''Intro'' 14, example_run ''Second'' 0, example_run ''Third'' 12])])]
       = [Inr (example_run ''Intro'' 14)] @ Inr (example_run ''Second'' 0) # [Inr (example_run ''Third'' 12)]
   \<and> \<not> isl (step_result 1 (Inr (example_run ''Intro'' 14)))
   \<and> run_body (example_run ''Second'' 0) 1 = Inl (ValueError ''Font size must be positive'')
   \<and> extract_page_spans
        (example_page [example_run ''Intro'' 14, example_run ''Second'' 0, example_run ''Third'' 12]) 1 []
       = ([example_record ''Intro'' 14 1], [Warning 1 (ValueError ''Font size must be positive'')])"
proof -
  have 1: "page_blocks (example_page [example_run ''Intro'' 14, example_run ''Second'' 0, example_run ''Third'' 12])
     = Inr [Block (Some [Line (Some [example_run ''Intro'' 14, example_run ''Second'' 0, example_run ''Third'' 12])])]"
    by (simp add: example_page_def)
  have 2: "page_items [Block (Some [Line (Some [example_run ''Intro'' 14, example_run ''Second'' 0, example_run ''Third'' 12])])]
       = [Inr (example_run ''Intro'' 14)] @ Inr (example_run ''Second'' 0) # [Inr (example_run ''Third'' 12)]"
    by (simp add: page_items_def)
  have r: "run_body (example_run ''Intro'' 14) 1 = Inr (Some (example_record ''Intro'' 14 1))"
    by (simp add: example_run_body example_texts)
  then have 3: "\<forall>it \<in> set [Inr (example_run ''Intro'' 14)]. \<not> isl (step_result 1 it)"
    by (simp add: step_result_def)
  have 4: "run_body (example_run ''Second'' 0) 1 = Inl (ValueError ''Font size must be positive'')"
    by (simp add: example_run_body_zero example_texts)
  have 5: "built 1 [Inr (example_run ''Intro'' 14)] = [example_record ''Intro'' 14 1]"
    by (simp add: built_def step_result_def r)
  show ?thesis
    using invalid_span_ends_page [OF 1 2 3 4, of "[]"] 1 2 3 4 5 by simp
qed

text \<open>
  The claim as stated fails: on a page with a run of size 0 followed by a valid run, the
  valid run, which alone yields its record, yields none.
\<close>

theorem invalid_span_counterexample:
  "run_body (example_run ''Intro'' 0) 1 = Inl (ValueError ''Font size must be positive'')
   \<and> run_body (example_run ''Second'' 14) 1 = Inr (Some (example_record ''Second'' 14 1))
   \<and> extract_page_spans (example_page [example_run ''Second'' 14]) 1 []
       = ([example_record ''Second'' 14 1], [])
   \<and> extract_page_spans (example_page [example_run ''Intro'' 0, example_run ''Second'' 14]) 1 []
       = ([], [Warning 1 (ValueError ''Font size must be positive'')])"
  by (simp add: extract_page_spans_def example_page_def example_run_body example_run_body_zero
        example_texts)

subsection \<open>A page whose walk fails\<close>

text \<open>
  Claim C4. When the walk of a page raises, at the start or partway through, the page
  contributes exactly the records built before the failure and a warning is logged; the
  document loop goes on, so that a document whose pages all load returns the filtered
  records of all its pages in page order, those of the pages after the failing one
  included, and it returns normally. A document whose page 2 raises in the walk returns
  the records of pages 1 and 3.
\<close>

theorem page_failure_isolated:
  "(page_blocks pg = Inl e \<longrightarrow> extract_page_spans pg n lg = ([], lg @ [Warning n e]))
   \<and> (page_blocks pg = Inr blocks \<and> page_items blocks = pre @ bad # post
        \<and> (\<forall>it \<in> set pre. \<not> isl (step_result n it)) \<and> step_result n bad = Inl e
      \<longrightarrow> extract_page_spans pg n lg = (built n pre, lg @ [Warning n e]))
   \<and> (fitz_open path = Inr (Document (map Inr (ps @ pg # qs))) \<longrightarrow>
        extract_text_spans fitz_open self path lg =
          (Inr (filter_spans self
                  (page_records ps 1 @ fst (extract_page_spans pg (1 + int (length ps)) [])
                     @ page_records qs (2 + int (length ps)))),
           lg @ page_warnings ps 1 @ snd (extract_page_spans pg (1 + int (length ps)) [])
              @ page_warnings qs (2 + int (length ps))))"
proof (intro conjI impI)
  assume "page_blocks pg = Inl e"
  then show "extract_page_spans pg n lg = ([], lg @ [Warning n e])"
    by (simp add: extract_page_spans_def)
next
  assume "page_blocks pg = Inr blocks \<and> page_items blocks = pre @ bad # post
        \<and> (\<forall>it \<in> set pre. \<not> isl (step_result n it)) \<and> step_result n bad = Inl e"
  then show "extract_page_spans pg n lg = (built n pre, lg @ [Warning n e])"
    using extract_page_spans_fail [of pg blocks pre bad post n e lg] by blast
next
  assume "fitz_open path = Inr (Document (map Inr (ps @ pg # qs)))"
  then have "extract_text_spans fitz_open self path lg =
     (Inr (filter_spans self (page_records (ps @ pg # qs) 1)), lg @ page_warnings (ps @ pg # qs) 1)"
    by (rule extract_text_spans_loaded)
  moreover have "(1 + int (length ps)) + 1 = 2 + int (length ps)"
    by simp
  ultimately show "extract_text_spans fitz_open self path lg =
          (Inr (filter_spans self
                  (page_records ps 1 @ fst (extract_page_spans pg (1 + int (length ps)) [])
                     @ page_records qs (2 + int (length ps)))),
           lg @ page_warnings ps 1 @ snd (extract_page_spans pg (1 + int (length ps)) [])
              @ page_warnings qs (2 + int (length ps)))"
    by (simp add: page_records_append page_warnings_append)
qed

theorem page_failure_isolated_witness:
  "page_blocks (Page (Inr [Block (Some [Line (Some [example_run ''Second'' 14]), Line None])]))
     = Inr [Block (Some [Line (Some [example_run ''Second'' 14]), Line None])]
   \<and> page_items [Block (Some [Line (Some [example_run ''Second'' 14]), Line None])]
       = [Inr (example_run ''Second'' 14)] @ Inl (KeyError ''spans'') # []
   \<and> \<not> isl (step_result 2 (Inr (example_run ''Second'' 14)))
   \<and> step_result 2 (Inl (KeyError ''spans'')) = Inl (KeyError ''spans'')
   \<and> example_open
        [example_page [example_run ''Intro'' 14],
         Page (Inr [Block (Some [Line (Some [example_run ''Second'' 14]), Line None])]),
         example_page [example_run ''Third'' 12]] ''doc.pdf''
       = Inr (Document (map Inr
           ([example_page [example_run ''Intro'' 14]]
            @ Page (Inr [Block (Some [Line (Some [example_run ''Second'' 14]), Line None])])
            # [example_page [example_run ''Third'' 12]])))
   \<and> extract_page_spans
        (Page (Inr [Block (Some [Line (Some [example_run ''Second'' 14]), Line None])])) 2 []
       = ([example_record ''Second'' 14 2], [Warning 2 (KeyError ''spans'')])
   \<and> extract_text_spans
        (example_open
           [example_page [example_run ''Intro'' 14],
            Page (Inr [Block (Some [Line (Some [example_run ''Second'' 14]), Line None])]),
            example_page [example_run ''Third'' 12]])
        default_extractor ''doc.pdf'' []
       = (Inr [example_record ''Intro'' 14 1, example_record ''Second'' 14 2,
               example_record ''Third'' 12 3],
          [Warning 2 (KeyError ''spans'')])"
proof -
  let ?pg = "Page (Inr [Block (Some [Line (Some [example_run ''Second'' 14]), Line None])])"
  let ?blocks = "[Block (Some [Line (Some [example_run ''Second'' 14]), Line None])]"
  let ?p1 = "example_page [example_run ''Intro'' 14]"
  let ?p3 = "example_page [example_run ''Third'' 12]"
  have 1: "page_blocks ?pg = Inr ?blocks"
    by simp
  have 2: "page_items ?blocks = [Inr (example_run ''Second'' 14)] @ Inl (KeyError ''spans'') # []"
    by (simp add: page_items_def)
  have r: "run_body (example_run ''Second'' 14) 2 = Inr (Some (example_record ''Second'' 14 2))"
    by (simp add: example_run_body example_texts)
  then have 3: "\<forall>it \<in> set [Inr (example_run ''Second'' 14)]. \<not> isl (step_result 2 it)"
    by (simp add: step_result_def)
  have 4: "step_result 2 (Inl (KeyError ''spans'')) = Inl (KeyError ''spans'')"
    by (simp add: step_result_def)
  have 5: "example_open [?p1, ?pg, ?p3] ''doc.pdf'' = Inr (Document (map Inr ([?p1] @ ?pg # [?p3])))"
    by (simp add: example_open_def pymupdf_open_def example_fs_def)
  have b: "built 2 [Inr (example_run ''Second'' 14)] = [example_record ''Second'' 14 2]"
    by (simp add: built_def step_result_def r)
  have p1: "extract_page_spans ?p1 1 [] = ([example_record ''Intro'' 14 1], [])"
    by (simp add: example_page_spans example_texts)
  have p3: "extract_page_spans ?p3 3 [] = ([example_record ''Third'' 12 3], [])"
    by (simp add: example_page_spans example_texts)
  note inst = page_failure_isolated [where pg = ?pg and blocks = ?blocks and n = 2
      and pre = "[Inr (example_run ''Second'' 14)]" and bad = "Inl (KeyError ''spans'')"
      and post = "[]" and e = "KeyError ''spans''" and lg = "[]"
      and fitz_open = "example_open [?p1, ?pg, ?p3]" and path = "''doc.pdf''"
      and ps = "[?p1]" and qs = "[?p3]" and self = default_extractor]
  from inst 1 2 3 4 have page: "extract_page_spans ?pg 2 [] = ([example_record ''Second'' 14 2], [Warning 2 (KeyError ''spans'')])"
    by (simp only: b) simp
  from inst 5 have "extract_text_spans (example_open [?p1, ?pg, ?p3]) default_extractor ''doc.pdf'' []
       = (Inr [example_record ''Intro'' 14 1, example_record ''Second'' 14 2,
               example_record ''Third'' 12 3],
          [Warning 2 (KeyError ''spans'')])"
    by (simp add: page p1 p3 filter_spans_filter example_record_passes)
  with 1 2 3 4 5 page show ?thesis
    by simp
qed

subsection \<open>What reaches the caller\<close>

lemma reraise_kinds: "(\<exists>m. reraise p e = FileNotFoundError m) \<or> (\<exists>m c. reraise p e = RuntimeError m c)"
  by (cases e) (simp_all add: reraise_def)

lemma reraise_other:
  "\<forall>m. e \<noteq> FileNotFoundError m \<Longrightarrow> reraise p e = RuntimeError (''Failed to extract text from '' @ p) e"
  by (cases e) (simp_all add: reraise_def)

text \<open>
  Whatever the opener does: an exception that opening raises reaches the caller as
  \<open>FileNotFoundError\<close> when it is a \<open>FileNotFoundError\<close> and as \<open>RuntimeError\<close> holding it
  otherwise; no failure of another kind reaches the caller; and a document that opens
  and whose pages load returns normally, whatever its pages and runs hold.
\<close>

lemma extract_text_spans_failures:
  "(fitz_open path = Inl (FileNotFoundError m) \<longrightarrow>
      extract_text_spans fitz_open self path lg
        = (Inl (FileNotFoundError (''PDF file not found: '' @ path)), lg))
   \<and> (fitz_open path = Inl e \<and> (\<forall>m. e \<noteq> FileNotFoundError m) \<longrightarrow>
      extract_text_spans fitz_open self path lg
        = (Inl (RuntimeError (''Failed to extract text from '' @ path) e), lg))
   \<and> (\<forall>e'. fst (extract_text_spans fitz_open self path lg) = Inl e' \<longrightarrow>
        (\<exists>m. e' = FileNotFoundError m) \<or> (\<exists>m c. e' = RuntimeError m c))
   \<and> (fitz_open path = Inr (Document (map Inr pgs)) \<longrightarrow>
        (\<exists>r. fst (extract_text_spans fitz_open self path lg) = Inr r))"
proof (intro conjI impI allI)
  assume "fitz_open path = Inl (FileNotFoundError m)"
  then show "extract_text_spans fitz_open self path lg
        = (Inl (FileNotFoundError (''PDF file not found: '' @ path)), lg)"
    by (simp add: extract_text_spans_def reraise_def)
next
  assume "fitz_open path = Inl e \<and> (\<forall>m. e \<noteq> FileNotFoundError m)"
  then show "extract_text_spans fitz_open self path lg
        = (Inl (RuntimeError (''Failed to extract text from '' @ path) e), lg)"
    by (simp add: extract_text_spans_def reraise_other)
next
  fix e'
  assume "fst (extract_text_spans fitz_open self path lg) = Inl e'"
  then obtain e0 where "e' = reraise path e0"
    by (auto simp: extract_text_spans_def split: sum.splits prod.splits)
  then show "(\<exists>m. e' = FileNotFoundError m) \<or> (\<exists>m c. e' = RuntimeError m c)"
    using reraise_kinds [of path e0] by simp
next
  assume "fitz_open path = Inr (Document (map Inr pgs))"
  then show "\<exists>r. fst (extract_text_spans fitz_open self path lg) = Inr r"
    by (simp add: extract_text_spans_loaded)
qed

text \<open>
  Claim C5. The claim, and the docstring of \<open>extract_text_spans\<close>, say that a path without
  a file fails with \<open>FileNotFoundError\<close>, the failure \<open>NotFound\<close>. The library raises its
  own \<open>FileNotFoundError\<close> for such a path, which is a \<open>RuntimeError\<close> and which the clause
  \<open>except FileNotFoundError\<close> does not catch: the path \<open>missing.pdf\<close>, which has no file,
  fails with \<open>RuntimeError\<close>, the failure \<open>CorruptDocument\<close>, as the unreadable file
  \<open>broken.pdf\<close> does; and the empty path, which has no file either, returns the empty
  sequence.
\<close>

theorem missing_file_runtime_error:
  "example_fs [] ''missing.pdf'' = Missing
   \<and> extract_text_spans (example_open []) default_extractor ''missing.pdf'' []
       = (Inl (RuntimeError ''Failed to extract text from missing.pdf''
                 (Fitz_FileNotFoundError ''no such file: missing.pdf'')), [])
   \<and> extract_text_spans (example_open []) default_extractor ''broken.pdf'' []
       = (Inl (RuntimeError ''Failed to extract text from broken.pdf''
                 (Fitz_FileDataError ''Failed to open file'')), [])
   \<and> example_fs [] [] = Missing
   \<and> extract_text_spans (example_open []) default_extractor [] [] = (Inr [], [])"
  by (simp add: extract_text_spans_def example_open_def pymupdf_open_def example_fs_def
        reraise_def filter_spans_def)

subsection \<open>An inverted size range\<close>

text \<open>
  Claim C10. When the configuration has \<open>min_font_size > max_font_size\<close>, which neither the
  constructor nor \<open>extract_text_spans_enhanced\<close> excludes, no size lies in the range: the
  filter rejects every record, and whenever the pipeline returns, it returns the empty
  sequence.
\<close>

theorem inverted_range_empty:
  "float_lt mx mn \<Longrightarrow>
     filter_spans \<lparr>min_font_size = mn, max_font_size = mx\<rparr> spans = []
     \<and> (\<forall>r lg'. extract_text_spans_enhanced fitz_open path mn mx lg = (Inr r, lg') \<longrightarrow> r = [])
     \<and> (fitz_open path = Inr (Document (map Inr pgs)) \<longrightarrow>
          fst (extract_text_spans_enhanced fitz_open path mn mx lg) = Inr [])"
proof -
  assume "float_lt mx mn"
  then have empty: "filter_spans \<lparr>min_font_size = mn, max_font_size = mx\<rparr> xs = []" for xs
    by (simp add: filter_spans_inverted)
  have "r = []" if "extract_text_spans_enhanced fitz_open path mn mx lg = (Inr r, lg')" for r lg'
    using that empty
    by (auto simp: extract_text_spans_enhanced_def extract_text_spans_def
          split: sum.splits prod.splits)
  moreover have "fst (extract_text_spans_enhanced fitz_open path mn mx lg) = Inr []"
    if "fitz_open path = Inr (Document (map Inr pgs))"
    using that empty by (simp add: extract_text_spans_enhanced_def extract_text_spans_loaded)
  ultimately show ?thesis
    using empty by blast
qed

theorem inverted_range_empty_witness:
  "float_lt (Float 6) (Float 72)
   \<and> filter_spans \<lparr>min_font_size = Float 72, max_font_size = Float 6\<rparr>
        [example_record ''Intro'' 14 1] = []
   \<and> filter_spans default_extractor [example_record ''Intro'' 14 1] = [example_record ''Intro'' 14 1]
   \<and> fst (extract_text_spans_enhanced (example_open [example_page [example_run ''Intro'' 14]])
            ''doc.pdf'' (Float 72) (Float 6) []) = Inr []"
proof -
  have h: "float_lt (Float 6) (Float 72)"
    by simp
  have o: "example_open [example_page [example_run ''Intro'' 14]] ''doc.pdf''
             = Inr (Document (map Inr [example_page [example_run ''Intro'' 14]]))"
    by (simp add: example_open_def pymupdf_open_def example_fs_def)
  show ?thesis
    using inverted_range_empty [OF h, where spans = "[example_record ''Intro'' 14 1]"
        and fitz_open = "example_open [example_page [example_run ''Intro'' 14]]"
        and path = "''doc.pdf''" and pgs = "[example_page [example_run ''Intro'' 14]]" and lg = "[]"] o
    by (simp add: filter_spans_filter example_record_passes)
qed

section \<open>The claim on the colour\<close>

lemma hex_of_nat_small: "n < 16 \<Longrightarrow> hex_of_nat n = [hex_digit n]"
  by (subst hex_of_nat.simps) simp

lemma hex_of_nat_big: "16 \<le> n \<Longrightarrow> hex_of_nat n = hex_of_nat (n div 16) @ [hex_digit (n mod 16)]"
  by (subst hex_of_nat.simps) simp

text \<open>
  Claim C2 as stated fails: the format \<open>06x\<close> pads to six digits and cuts nothing off, so
  the colour \<open>0x1000000\<close> gives seven digits, not the six digits \<open>000000\<close> of its low 24
  bits, and the colour \<open>-1\<close> gives a minus sign.
\<close>

theorem parse_color_counterexample:
  "parse_color \<lparr>run_text = None, run_bbox = None, run_size = None, run_font = None,
                 run_flags = None, run_color = Some 16777216\<rparr> = ''#1000000''
   \<and> parse_color \<lparr>run_text = None, run_bbox = None, run_size = None, run_font = None,
                   run_flags = None, run_color = Some (- 1)\<rparr> = ''#-00001''"
  by (simp add: parse_color_def format_06x_def zero_pad_def hex_of_nat_small hex_of_nat_big
        hex_digit_def)
    (simp add: eval_nat_numeral)

text \<open>
  Claim C2, as amended. \<open>_parse_color\<close> is total on integers; the colour 0, or an absent
  colour, gives \<open>black\<close>; a colour \<open>c > 0\<close> gives \<open>#\<close> followed by lowercase hexadecimal
  digits that encode \<open>c\<close> itself, at least six of them and exactly six when \<open>c < 2^24\<close>
  (so \<open>0xFF00A0\<close> gives \<open>#ff00a0\<close>); a negative colour \<open>c\<close> gives \<open>#-\<close> followed by
  lowercase hexadecimal digits that encode \<open>- c\<close>, at least five of them.
\<close>

theorem parse_color_digits:
  "(run_color sp = None \<or> run_color sp = Some 0 \<longrightarrow> parse_color sp = ''black'')
   \<and> (run_color sp = Some c \<and> 0 < c \<longrightarrow>
        (\<exists>ds. parse_color sp = CHR ''#'' # ds \<and> list_all is_lower_hex ds
              \<and> int (hex_value ds) = c \<and> 6 \<le> length ds \<and> (length ds = 6 \<longleftrightarrow> c < 2 ^ 24)))
   \<and> (run_color sp = Some c \<and> c < 0 \<longrightarrow>
        (\<exists>ds. parse_color sp = CHR ''#'' # CHR ''-'' # ds \<and> list_all is_lower_hex ds
              \<and> int (hex_value ds) = - c \<and> 5 \<le> length ds))"
proof (intro conjI impI)
  assume "run_color sp = None \<or> run_color sp = Some 0"
  then show "parse_color sp = ''black''"
    by (auto simp: parse_color_def)
next
  assume a: "run_color sp = Some c \<and> 0 < c"
  then have p: "parse_color sp = CHR ''#'' # format_06x c"
    by (simp add: parse_color_def)
  have "6 \<le> length (format_06x c)"
    using a by (simp add: format_06x_def zero_pad_length)
  with p format_06x_pos [of c] a
  show "\<exists>ds. parse_color sp = CHR ''#'' # ds \<and> list_all is_lower_hex ds
              \<and> int (hex_value ds) = c \<and> 6 \<le> length ds \<and> (length ds = 6 \<longleftrightarrow> c < 2 ^ 24)"
    by simp
next
  assume a: "run_color sp = Some c \<and> c < 0"
  let ?ds = "zero_pad 5 (hex_of_nat (nat (- c)))"
  from a have "parse_color sp = CHR ''#'' # CHR ''-'' # ?ds"
    by (simp add: parse_color_def format_06x_def)
  moreover have "list_all is_lower_hex ?ds"
    by (rule zero_pad_digits) (rule hex_of_nat_digits)
  moreover have "int (hex_value ?ds) = - c"
    using a by (simp add: zero_pad_value hex_of_nat_value)
  moreover have "5 \<le> length ?ds"
    by (simp add: zero_pad_length)
  ultimately show "\<exists>ds. parse_color sp = CHR ''#'' # CHR ''-'' # ds \<and> list_all is_lower_hex ds
              \<and> int (hex_value ds) = - c \<and> 5 \<le> length ds"
    by blast
qed

theorem parse_color_digits_witness:
  "parse_color \<lparr>run_text = None, run_bbox = None, run_size = None, run_font = None,
                 run_flags = None, run_color = Some 0\<rparr> = ''black''
   \<and> (0::int) < 16711840 \<and> (16711840::int) < 2 ^ 24
   \<and> parse_color \<lparr>run_text = None, run_bbox = None, run_size = None, run_font = None,
                   run_flags = None, run_color = Some 16711840\<rparr> = ''#ff00a0''
   \<and> length (parse_color \<lparr>run_text = None, run_bbox = None, run_size = None, run_font = None,
                   run_flags = None, run_color = Some 16711840\<rparr>) = 7
   \<and> (- 1::int) < 0
   \<and> (\<exists>ds. parse_color \<lparr>run_text = None, run_bbox = None, run_size = None, run_font = None,
                   run_flags = None, run_color = Some (- 1)\<rparr> = CHR ''#'' # CHR ''-'' # ds
          \<and> list_all is_lower_hex ds \<and> int (hex_value ds) = 1 \<and> 5 \<le> length ds)"
proof -
  let ?sp = "\<lparr>run_text = None, run_bbox = None, run_size = None, run_font = None,
                   run_flags = None, run_color = Some (16711840::int)\<rparr>"
  have v: "parse_color ?sp = ''#ff00a0''"
    by (simp add: parse_color_def format_06x_def zero_pad_def hex_of_nat_small hex_of_nat_big
          hex_digit_def)
  have "\<exists>ds. parse_color ?sp = CHR ''#'' # ds \<and> list_all is_lower_hex ds
              \<and> int (hex_value ds) = 16711840 \<and> 6 \<le> length ds \<and> (length ds = 6 \<longleftrightarrow> (16711840::int) < 2 ^ 24)"
    using parse_color_digits [of ?sp 16711840] by simp
  then have "length (parse_color ?sp) = 7"
    by auto
  moreover have "parse_color \<lparr>run_text = None, run_bbox = None, run_size = None, run_font = None,
                 run_flags = None, run_color = Some 0\<rparr> = ''black''"
    using parse_color_digits [of "\<lparr>run_text = None, run_bbox = None, run_size = None, run_font = None,
                 run_flags = None, run_color = Some 0\<rparr>" 0] by simp
  moreover have "\<exists>ds. parse_color \<lparr>run_text = None, run_bbox = None, run_size = None, run_font = None,
                   run_flags = None, run_color = Some (- 1)\<rparr> = CHR ''#'' # CHR ''-'' # ds
          \<and> list_all is_lower_hex ds \<and> int (hex_value ds) = 1 \<and> 5 \<le> length ds"
    using parse_color_digits [of "\<lparr>run_text = None, run_bbox = None, run_size = None, run_font = None,
                   run_flags = None, run_color = Some (- 1)\<rparr>" "- 1"] by simp
  ultimately show ?thesis
    using v by simp
qed

end
